theory Spec2Isabelle
  imports Main
begin

section \<open>Mesh creation utilities (tensorflow/dtensor/python/mesh_util.py)\<close>

text \<open>
  A shallow embedding of \<^verbatim>\<open>create_mesh\<close> and \<^verbatim>\<open>create_distributed_mesh\<close>.
  Python integers are \<open>int\<close>, Python strings are \<open>string\<close>, an optional argument is an
  \<open>option\<close>, and every \<^verbatim>\<open>raise\<close> of the source (and every failing index access) is an
  \<open>Inl\<close> result.
\<close>

subsection \<open>Errors\<close>

text \<open>
  The messages of the source are f-strings; the model keeps which \<^verbatim>\<open>raise\<close> statement fired
  instead of the text. \<open>CannotReshape\<close> is the \<^verbatim>\<open>ValueError\<close> of numpy's \<^verbatim>\<open>reshape\<close>,
  \<open>RuntimeRejected\<close> stands for a failure inside the runtime that is not part of this file.
\<close>

datatype reason =
    NumGlobalDevicesNotPositive
  | NumClientsNotPositive
  | ClientIdNegative
  | ClientIdTooLarge
  | NotDivisible
  | NotEnoughDevices
  | ConflictingDevices
  | TpuNumGlobalDevices
  | TpuNumClients
  | TpuClientId
  | UnknownDeviceType
  | CannotReshape
  | RuntimeRejected

datatype error = ValueError reason | IndexError | AttributeError

subsection \<open>Python and numpy primitives used by the source\<close>

text \<open>
  \<^verbatim>\<open>str.upper()\<close> on the ASCII letters. A Python string is the list of the bytes of its
  UTF-8 encoding here, so a character beyond ASCII is made of bytes with the top bit set,
  which \<open>upper\<close> leaves alone. That decides the tests of lines 136 and 188 as Python does:
  they compare with the literals \<^verbatim>\<open>'CPU'\<close>, \<^verbatim>\<open>'GPU'\<close> and \<^verbatim>\<open>'TPU'\<close>, and only the ASCII
  letters upper-case to the letters of these.
\<close>

definition char_upper :: "char \<Rightarrow> char" where
  "char_upper c =
     (case map_of (zip ''abcdefghijklmnopqrstuvwxyz'' ''ABCDEFGHIJKLMNOPQRSTUVWXYZ'') c of
        None \<Rightarrow> c
      | Some u \<Rightarrow> u)"

definition upper :: "string \<Rightarrow> string" where
  "upper s = map char_upper s"

text \<open>
  \<^verbatim>\<open>str.upper()\<close> on any string, as line 77 applies it to two strings that are compared
  with each other: on a string of ASCII characters it is \<open>upper\<close>; on a string with a
  character beyond ASCII it follows Unicode's case mapping, which is not
  part of this file and is the parameter \<open>u\<close>.
\<close>

definition str_upper :: "(string \<Rightarrow> string) \<Rightarrow> string \<Rightarrow> string" where
  "str_upper u s = (if list_ex digit7 s then u s else upper s)"

text \<open>
  \<^verbatim>\<open>if arg is None: arg = default\<close>: an optional argument and the value that replaces
  \<^verbatim>\<open>None\<close>.
\<close>

definition resolved :: "'a option \<Rightarrow> 'a \<Rightarrow> 'a" where
  "resolved arg dflt = (case arg of None \<Rightarrow> dflt | Some v \<Rightarrow> v)"

text \<open>\<^verbatim>\<open>xs[0]\<close>: raises \<^verbatim>\<open>IndexError\<close> on the empty list.\<close>

fun first :: "'a list \<Rightarrow> error + 'a" where
  "first [] = Inl IndexError"
| "first (x # xs) = Inr x"

text \<open>
  \<^verbatim>\<open>xs[start:stop]\<close>: a negative bound counts from the end, and both bounds are clipped to
  the list. \<^verbatim>\<open>xs[:stop]\<close> is \<open>py_slice xs 0 stop\<close>.
\<close>

definition clip_index :: "nat \<Rightarrow> int \<Rightarrow> nat" where
  "clip_index n i = (if i < 0 then nat (int n + i) else min (nat i) n)"

definition py_slice :: "'a list \<Rightarrow> int \<Rightarrow> int \<Rightarrow> 'a list" where
  "py_slice xs start stop =
     (let lo = clip_index (length xs) start; hi = clip_index (length xs) stop
      in take (hi - lo) (drop lo xs))"

text \<open>
  A numpy array of integers: its shape and its elements in row-major (C) order.
  \<^verbatim>\<open>np.arange(n)\<close> is the one-dimensional array \<open>0, ..., n - 1\<close> (empty when \<open>n \<le> 0\<close>);
  \<^verbatim>\<open>np.ravel(a).tolist()\<close> is the list of the elements in row-major order.
\<close>

record ndarray =
  shape :: "int list"
  data :: "int list"

definition arange :: "int \<Rightarrow> ndarray" where
  "arange n = \<lparr>shape = [int (nat n)], data = map int [0..<nat n]\<rparr>"

definition ravel :: "ndarray \<Rightarrow> int list" where
  "ravel a = data a"

text \<open>
  \<^verbatim>\<open>a.reshape(newshape)\<close>: a negative entry of \<open>newshape\<close> is an unknown dimension, of which
  there may be one, inferred from the size of the array and the product of the others;
  without one the product of the entries has to be the size of the array. The elements keep
  their row-major order. Every mismatch is a \<^verbatim>\<open>ValueError\<close>. Dimension sizes are taken as
  unbounded integers here.
\<close>

definition reshape :: "ndarray \<Rightarrow> int list \<Rightarrow> error + ndarray" where
  "reshape a newshape =
     (let s_original = int (length (data a));
          s_known = prod_list (filter (\<lambda>d. \<not> d < 0) newshape);
          unknown = length (filter (\<lambda>d. d < 0) newshape)
      in if unknown > 1 then Inl (ValueError CannotReshape)
         else if unknown = 1 then
           (if s_known = 0 \<or> s_original mod s_known \<noteq> 0 then Inl (ValueError CannotReshape)
            else Inr \<lparr>shape = map (\<lambda>d. if d < 0 then s_original div s_known else d) newshape,
                      data = data a\<rparr>)
         else if s_original \<noteq> s_known then Inl (ValueError CannotReshape)
         else Inr \<lparr>shape = newshape, data = data a\<rparr>)"

subsection \<open>The data model\<close>

text \<open>
  A device reference (\<^verbatim>\<open>tf_device.DeviceSpec\<close>): this file reads only its \<^verbatim>\<open>device_type\<close>,
  which is optional in a device specification; the rest of the handle is kept as the string
  it was made from.
\<close>

record DeviceSpec =
  spec_string :: string
  device_type :: "string option"

text \<open>
  Modelled from the spec: the class \<^verbatim>\<open>dtensor.Mesh\<close> is not part of this file. The mesh
  descriptor holds the named dimensions, the global device-id grid shaped to those
  dimensions, the device ids local to the current client, the device handles backing those
  local ids, and the name of the mesh: the five keyword arguments the source constructs
  it from.
\<close>

record Mesh =
  dim_names :: "string list"
  global_device_ids :: ndarray
  local_device_ids :: "int list"
  local_devices :: "DeviceSpec list"
  mesh_name :: string

text \<open>
  The external runtime, taken as a parameter: the environment-derived cluster coordinates
  and device enumeration of \<^verbatim>\<open>dtensor\<close>, \<^verbatim>\<open>tf_config.list_logical_devices\<close> (the names of
  the logical devices of a type), \<^verbatim>\<open>DeviceSpec.from_string\<close> (which may reject a string),
  \<^verbatim>\<open>tpu_util.create_tpu_mesh\<close>, whatever validation the constructor of \<^verbatim>\<open>dtensor.Mesh\<close>
  performs on its arguments (\<open>None\<close>: accepted), and the upper-casing of a string that has
  characters beyond ASCII.
\<close>

record runtime =
  dtensor_num_global_devices :: "string \<Rightarrow> int"
  dtensor_num_clients :: int
  dtensor_client_id :: int
  dtensor_num_local_devices :: "string \<Rightarrow> int"
  dtensor_local_devices :: "string \<Rightarrow> int \<Rightarrow> DeviceSpec list"
  list_logical_devices :: "string \<Rightarrow> string list"
  from_string :: "string \<Rightarrow> error + DeviceSpec"
  create_tpu_mesh :: "string list \<Rightarrow> int list \<Rightarrow> string \<Rightarrow> error + Mesh"
  mesh_rejects :: "Mesh \<Rightarrow> error option"
  unicode_upper :: "string \<Rightarrow> string"

definition new_Mesh ::
  "runtime \<Rightarrow> string list \<Rightarrow> ndarray \<Rightarrow> int list \<Rightarrow> DeviceSpec list \<Rightarrow> string \<Rightarrow> error + Mesh"
where
  "new_Mesh rt names ids local_ids devices name =
     (let mesh = \<lparr>dim_names = names, global_device_ids = ids, local_device_ids = local_ids,
                  local_devices = devices, mesh_name = name\<rparr>
      in case mesh_rejects rt mesh of Some e \<Rightarrow> Inl e | None \<Rightarrow> Inr mesh)"

subsection \<open>The source functions\<close>

text \<open>
  \<^verbatim>\<open>_print_context\<close> only logs. What can fail in it is \<^verbatim>\<open>device_type.upper()\<close>, when the
  device type it is given is \<^verbatim>\<open>None\<close>.
\<close>

definition log_print_context :: "int \<Rightarrow> int \<Rightarrow> int \<Rightarrow> string option \<Rightarrow> Mesh \<Rightarrow> error + unit" where
  "log_print_context num_global num_cl cid dtype mesh =
     (case dtype of None \<Rightarrow> Inl AttributeError | Some t \<Rightarrow> Inr ())"

text \<open>The list comprehension over \<^verbatim>\<open>DeviceSpec.from_string\<close>: the first failure is raised.\<close>

fun parse_all :: "(string \<Rightarrow> error + DeviceSpec) \<Rightarrow> string list \<Rightarrow> error + DeviceSpec list" where
  "parse_all f [] = Inr []"
| "parse_all f (d # ds) =
     (case f d of
        Inl e \<Rightarrow> Inl e
      | Inr x \<Rightarrow> (case parse_all f ds of Inl e \<Rightarrow> Inl e | Inr xs \<Rightarrow> Inr (x # xs)))"

text \<open>
  Lines 63 to 79 of \<^verbatim>\<open>create_mesh\<close>: the device list, from the explicit strings or from
  the logical devices of the requested type (default \<^verbatim>\<open>'CPU'\<close>), and the check of the
  requested type against the type of the first explicit device.
\<close>

definition resolve_devices ::
  "runtime \<Rightarrow> string list option \<Rightarrow> string option \<Rightarrow> error + DeviceSpec list"
where
  "resolve_devices rt devices dtype =
     (case devices of
        None \<Rightarrow>
          parse_all (from_string rt) (list_logical_devices rt (resolved dtype ''CPU''))
      | Some ds \<Rightarrow>
          (case parse_all (from_string rt)
                  (map (\<lambda>d. ''/job:localhost/replica:0/task:0/'' @ d) ds) of
             Inl e \<Rightarrow> Inl e
           | Inr devs \<Rightarrow>
               (case (case dtype of
                        None \<Rightarrow> (case first devs of Inl e \<Rightarrow> Inl e | Inr d \<Rightarrow> Inr (device_type d))
                      | Some t \<Rightarrow> Inr (Some t)) of
                  Inl e \<Rightarrow> Inl e
                | Inr None \<Rightarrow> Inl AttributeError
                | Inr (Some t) \<Rightarrow>
                    (case first devs of
                       Inl e \<Rightarrow> Inl e
                     | Inr d \<Rightarrow>
                         (case device_type d of
                            None \<Rightarrow> Inl AttributeError
                          | Some t0 \<Rightarrow>
                              if str_upper (unicode_upper rt) t \<noteq> str_upper (unicode_upper rt) t0
                              then Inl (ValueError ConflictingDevices)
                              else Inr devs)))))"

text \<open>
  \<^verbatim>\<open>create_mesh\<close>. The second component of the result is the caller's \<^verbatim>\<open>mesh_dims\<close>
  object as the call leaves it: the assignment \<^verbatim>\<open>mesh_dims[0] = ...\<close> of line 84 writes into
  the list the caller passed, while the default of line 81 only rebinds the local name.
\<close>

definition create_mesh ::
  "runtime \<Rightarrow> (string \<times> int) list option \<Rightarrow> string \<Rightarrow> string list option \<Rightarrow> string option
     \<Rightarrow> (error + Mesh) \<times> (string \<times> int) list option"
where
  "create_mesh rt mesh_dims name devices dtype =
     (case resolve_devices rt devices dtype of
        Inl e \<Rightarrow> (Inl e, mesh_dims)
      | Inr devs \<Rightarrow>
          (let n = int (length devs);
               caller = (case mesh_dims of
                           None \<Rightarrow> None
                         | Some md \<Rightarrow>
                             if length md = 1 \<and> snd (md ! 0) = - 1
                             then Some (md[0 := (fst (md ! 0), n)]) else Some md);
               dims = (case caller of None \<Rightarrow> [(''x'', n)] | Some md \<Rightarrow> md);
               names = map fst dims;
               shp = map snd dims
           in (case reshape (arange n) shp of
                 Inl e \<Rightarrow> Inl e
               | Inr ids \<Rightarrow>
                   (case new_Mesh rt names ids (ravel ids) devs name of
                      Inl e \<Rightarrow> Inl e
                    | Inr mesh \<Rightarrow>
                        (case first devs of
                           Inl e \<Rightarrow> Inl e
                         | Inr d \<Rightarrow>
                             (case log_print_context n 1 0 (device_type d) mesh of
                                Inl e \<Rightarrow> Inl e
                              | Inr _ \<Rightarrow> Inr mesh))),
               caller)))"

text \<open>
  \<^verbatim>\<open>create_distributed_mesh\<close>: the CPU/GPU branch (lines 136 to 186), the TPU branch
  (lines 188 to 212) and the final \<^verbatim>\<open>raise\<close>.
\<close>

definition create_distributed_mesh ::
  "runtime \<Rightarrow> (string \<times> int) list \<Rightarrow> string \<Rightarrow> int option \<Rightarrow> int option \<Rightarrow> int option \<Rightarrow> string
     \<Rightarrow> error + Mesh"
where
  "create_distributed_mesh rt mesh_dims name num_global_devices num_clients client_id dtype =
     (if upper dtype \<in> set [''CPU'', ''GPU''] then
        (let ngd = resolved num_global_devices (dtensor_num_global_devices rt dtype)
         in if ngd \<le> 0 then Inl (ValueError NumGlobalDevicesNotPositive)
            else
              (let nc = resolved num_clients (dtensor_num_clients rt)
               in if nc \<le> 0 then Inl (ValueError NumClientsNotPositive)
                  else
                    (let cid = resolved client_id (dtensor_client_id rt)
                     in if cid < 0 then Inl (ValueError ClientIdNegative)
                        else if cid \<ge> nc then Inl (ValueError ClientIdTooLarge)
                        else if ngd mod nc \<noteq> 0 then Inl (ValueError NotDivisible)
                        else
                          (let num_local_devices = ngd div nc;
                               num_available_devices = dtensor_num_local_devices rt dtype
                           in if num_local_devices > num_available_devices
                              then Inl (ValueError NotEnoughDevices)
                              else
                                (let devs = py_slice (dtensor_local_devices rt dtype cid)
                                              0 num_local_devices;
                                     names = map fst mesh_dims;
                                     shp = map snd mesh_dims
                                 in case reshape (arange ngd) shp of
                                      Inl e \<Rightarrow> Inl e
                                    | Inr ids \<Rightarrow>
                                        (let flattened = ravel ids;
                                             start_idx = num_local_devices * cid;
                                             local_ids = py_slice flattened start_idx
                                                           (start_idx + num_local_devices)
                                         in case new_Mesh rt names ids local_ids devs name of
                                              Inl e \<Rightarrow> Inl e
                                            | Inr mesh \<Rightarrow>
                                                (case log_print_context ngd nc cid (Some dtype) mesh of
                                                   Inl e \<Rightarrow> Inl e
                                                 | Inr _ \<Rightarrow> Inr mesh)))))))
      else if upper dtype = ''TPU'' then
        (if num_global_devices \<noteq> None then Inl (ValueError TpuNumGlobalDevices)
         else if num_clients \<noteq> None then Inl (ValueError TpuNumClients)
         else if client_id \<noteq> None then Inl (ValueError TpuClientId)
         else
           (case create_tpu_mesh rt (map fst mesh_dims) (map snd mesh_dims) name of
              Inl e \<Rightarrow> Inl e
            | Inr mesh \<Rightarrow>
                (case log_print_context (dtensor_num_global_devices rt dtype) (dtensor_num_clients rt)
                        (dtensor_client_id rt) (Some dtype) mesh of
                   Inl e \<Rightarrow> Inl e
                 | Inr _ \<Rightarrow> Inr mesh)))
      else Inl (ValueError UnknownDeviceType))"

subsection \<open>An example runtime\<close>

text \<open>
  A client with two logical CPU devices in a cluster of two clients and four devices, used
  to run the functions on concrete inputs. Its \<^verbatim>\<open>from_string\<close> reads the device type as the
  three characters before the final colon and index, and rejects the empty string; its
  \<^verbatim>\<open>dtensor.Mesh\<close> accepts every mesh, and it upper-cases the ASCII letters only.
\<close>

definition example_from_string :: "string \<Rightarrow> error + DeviceSpec" where
  "example_from_string s =
     (if s = [] then Inl (ValueError RuntimeRejected)
      else Inr \<lparr>spec_string = s, device_type = Some (take 3 (drop (length s - 5) s))\<rparr>)"

definition example_runtime :: runtime where
  "example_runtime =
     \<lparr>dtensor_num_global_devices = (\<lambda>t. 4),
      dtensor_num_clients = 2,
      dtensor_client_id = 1,
      dtensor_num_local_devices = (\<lambda>t. 2),
      dtensor_local_devices =
        (\<lambda>t i. [\<lparr>spec_string = ''/job:localhost/replica:0/task:0/device:CPU:0'',
                    device_type = Some ''CPU''\<rparr>,
                  \<lparr>spec_string = ''/job:localhost/replica:0/task:0/device:CPU:1'',
                    device_type = Some ''CPU''\<rparr>]),
      list_logical_devices = (\<lambda>t. [''/device:CPU:0'', ''/device:CPU:1'']),
      from_string = example_from_string,
      create_tpu_mesh = (\<lambda>names shp name. Inl (ValueError RuntimeRejected)),
      mesh_rejects = (\<lambda>m. None),
      unicode_upper = upper\<rparr>"


text \<open>
  The same client with a \<^verbatim>\<open>from_string\<close> that finds no device type in the strings it is
  given, as for a string that names a job and no device, such as \<^verbatim>\<open>'job:worker'\<close>.
\<close>

definition example_runtime_untyped :: runtime where
  "example_runtime_untyped =
     example_runtime\<lparr>from_string := (\<lambda>s. Inr \<lparr>spec_string = s, device_type = None\<rparr>)\<rparr>"

subsection \<open>Facts about the primitives\<close>

lemma filter_neg_empty: "filter (\<lambda>d. d < 0) s = [] \<Longrightarrow> filter (\<lambda>d. \<not> d < (0::int)) s = s"
  by (induction s) (auto split: if_splits)

lemma prod_list_unknown:
  "length (filter (\<lambda>d. d < 0) s) = 1 \<Longrightarrow>
   prod_list (map (\<lambda>d. if d < 0 then q else d) s) = q * prod_list (filter (\<lambda>d. \<not> d < (0::int)) s)"
proof (induction s)
  case Nil
  then show ?case by simp
next
  case (Cons d s)
  show ?case
  proof (cases "d < 0")
    case True
    with Cons.prems have e: "filter (\<lambda>d. d < 0) s = []" by simp
    then have "filter (\<lambda>d. \<not> d < 0) s = s" by (rule filter_neg_empty)
    moreover from e have "map (\<lambda>d. if d < 0 then q else d) s = s"
      by (induction s) (auto split: if_splits)
    ultimately show ?thesis using True by simp
  next
    case False
    with Cons show ?thesis by simp
  qed
qed

lemma reshape_Inr:
  assumes "reshape a s = Inr g"
  shows "prod_list (shape g) = int (length (data a))" and "data g = data a"
    and "length (shape g) = length s"
    and "\<forall>d \<in> set s. 0 \<le> d \<Longrightarrow> shape g = s"
proof -
  let ?k = "prod_list (filter (\<lambda>d. \<not> d < 0) s)"
  let ?u = "length (filter (\<lambda>d. d < 0) s)"
  from assms have u: "?u \<le> 1"
    by (auto simp: reshape_def Let_def split: if_splits)
  show "data g = data a" using assms
    by (auto simp: reshape_def Let_def split: if_splits)
  show "length (shape g) = length s" using assms
    by (auto simp: reshape_def Let_def split: if_splits)
  show "prod_list (shape g) = int (length (data a))"
  proof (cases "?u = 1")
    case True
    with assms have k: "?k \<noteq> 0" "int (length (data a)) mod ?k = 0"
      and g: "shape g = map (\<lambda>d. if d < 0 then int (length (data a)) div ?k else d) s"
      by (auto simp: reshape_def Let_def split: if_splits)
    from k have "?k dvd int (length (data a))" by (simp add: dvd_eq_mod_eq_0)
    then show ?thesis unfolding g using prod_list_unknown[OF True] by simp
  next
    case False
    with u have z: "?u = 0" by linarith
    then have "filter (\<lambda>d. d < 0) s = []" by simp
    then have "filter (\<lambda>d. \<not> d < 0) s = s" by (rule filter_neg_empty)
    with assms z show ?thesis
      by (auto simp: reshape_def Let_def split: if_splits)
  qed
  show "shape g = s" if "\<forall>d \<in> set s. 0 \<le> d"
  proof -
    from that have "filter (\<lambda>d. d < 0) s = []" by (auto simp: filter_empty_conv not_less)
    with assms show ?thesis by (auto simp: reshape_def Let_def split: if_splits)
  qed
qed



lemma py_slice_range:
  assumes "0 \<le> a" "a \<le> b" "b \<le> int N"
  shows "py_slice (map int [0..<N]) a b = map int [nat a..<nat b]"
proof -
  from assms have "clip_index N a = nat a" "clip_index N b = nat b"
    by (auto simp: clip_index_def)
  moreover from assms have "nat a + (nat b - nat a) = nat b" "nat b \<le> N" by simp_all
  then have "take (nat b - nat a) [nat a..<N] = [nat a..<nat b]"
    using take_upt [of "nat a" "nat b - nat a" N] by simp
  ultimately show ?thesis
    by (simp add: py_slice_def Let_def take_map drop_map)
qed

lemma concat_blocks:
  "concat (map (\<lambda>j. [L * j..<L * j + L]) [0..<c]) = [0..<L * c]"
proof (induction c)
  case 0
  then show ?case by simp
next
  case (Suc c)
  have "[0..<L * c] @ [L * c..<L * c + L] = [0..<L * c + L]"
    by (metis le_add1 upt_add_eq_append zero_le)
  with Suc show ?case by (simp add: add.commute)
qed

lemma slice_bounds:
  assumes "0 < (n::int)" "0 < c" "0 \<le> i" "i < c" "n mod c = 0"
  shows "0 \<le> n div c * i" and "n div c * i \<le> n div c * i + n div c"
    and "n div c * i + n div c \<le> n" and "0 < n div c" and "n div c * c = n"
proof -
  from assms show nc: "n div c * c = n" by (simp add: dvd_eq_mod_eq_0 [symmetric])
  from assms have "0 \<le> n div c" by (simp add: pos_imp_zdiv_nonneg_iff)
  with nc assms show L: "0 < n div c" by (cases "n div c = 0") auto
  with assms show "0 \<le> n div c * i" by simp
  from L show "n div c * i \<le> n div c * i + n div c" by simp
  have "n div c * (i + 1) \<le> n div c * c"
    using L assms by (intro mult_left_mono) auto
  with nc show "n div c * i + n div c \<le> n" by (simp add: algebra_simps)
qed

subsection \<open>What a successful CPU or GPU call establishes\<close>

lemma cdm_cpu_gpu_Inr:
  assumes dt: "upper dt \<in> set [''CPU'', ''GPU'']"
    and ok: "create_distributed_mesh rt dims name ngd nc cid dt = Inr m"
  defines "n \<equiv> resolved ngd (dtensor_num_global_devices rt dt)"
    and "c \<equiv> resolved nc (dtensor_num_clients rt)"
    and "i \<equiv> resolved cid (dtensor_client_id rt)"
  shows "0 < n" and "0 < c" and "0 \<le> i" and "i < c" and "n mod c = 0"
    and "n div c \<le> dtensor_num_local_devices rt dt"
    and "\<exists>g. reshape (arange n) (map snd dims) = Inr g \<and>
           m = \<lparr>dim_names = map fst dims, global_device_ids = g,
                local_device_ids = py_slice (ravel g) (n div c * i) (n div c * i + n div c),
                local_devices = py_slice (dtensor_local_devices rt dt i) 0 (n div c),
                mesh_name = name\<rparr>"
    and "mesh_rejects rt m = None"
  using dt ok unfolding n_def c_def i_def
  by (auto simp: create_distributed_mesh_def Let_def new_Mesh_def log_print_context_def
      split: if_splits sum.splits option.splits)

lemma cdm_local_ids:
  assumes dt: "upper dt \<in> set [''CPU'', ''GPU'']"
    and ok: "create_distributed_mesh rt dims name ngd nc cid dt = Inr m"
  defines "n \<equiv> resolved ngd (dtensor_num_global_devices rt dt)"
    and "c \<equiv> resolved nc (dtensor_num_clients rt)"
    and "i \<equiv> resolved cid (dtensor_client_id rt)"
  shows "ravel (global_device_ids m) = map int [0..<nat n]"
    and "local_device_ids m =
           py_slice (ravel (global_device_ids m)) (n div c * i) (n div c * i + n div c)"
    and "local_device_ids m = map int [nat (n div c) * nat i..<nat (n div c) * nat i + nat (n div c)]"
    and "prod_list (shape (global_device_ids m)) = n"
    and "length (shape (global_device_ids m)) = length (dim_names m)"
    and "\<forall>d \<in> set dims. 0 \<le> snd d \<Longrightarrow> shape (global_device_ids m) = map snd dims"
proof -
  note inv = cdm_cpu_gpu_Inr [OF dt ok, folded n_def c_def i_def]
  from inv(7) obtain g where g: "reshape (arange n) (map snd dims) = Inr g"
    and m: "m = \<lparr>dim_names = map fst dims, global_device_ids = g,
                local_device_ids = py_slice (ravel g) (n div c * i) (n div c * i + n div c),
                local_devices = py_slice (dtensor_local_devices rt dt i) 0 (n div c),
                mesh_name = name\<rparr>" by blast
  note b = slice_bounds [OF inv(1-5)]
  from reshape_Inr(2) [OF g] show flat: "ravel (global_device_ids m) = map int [0..<nat n]"
    by (simp add: m ravel_def arange_def)
  show "local_device_ids m =
           py_slice (ravel (global_device_ids m)) (n div c * i) (n div c * i + n div c)"
    by (simp add: m)
  have "py_slice (map int [0..<nat n]) (n div c * i) (n div c * i + n div c)
        = map int [nat (n div c * i)..<nat (n div c * i + n div c)]"
    using b inv(1) by (intro py_slice_range) auto
  moreover have "nat (n div c * i) = nat (n div c) * nat i"
    using b(4) inv(3) by (simp add: nat_mult_distrib)
  moreover have "nat (n div c * i + n div c) = nat (n div c) * nat i + nat (n div c)"
    using b(4) b(1) inv(3) by (simp add: nat_add_distrib nat_mult_distrib)
  ultimately show "local_device_ids m = map int [nat (n div c) * nat i..<nat (n div c) * nat i + nat (n div c)]"
    using flat by (simp add: m)
  from reshape_Inr(1) [OF g] inv(1) show "prod_list (shape (global_device_ids m)) = n"
    by (simp add: m arange_def)
  from reshape_Inr(3) [OF g] show "length (shape (global_device_ids m)) = length (dim_names m)"
    by (simp add: m)
  show "shape (global_device_ids m) = map snd dims" if "\<forall>d \<in> set dims. 0 \<le> snd d"
    using reshape_Inr(4) [OF g] that by (simp add: m)
qed

subsection \<open>What a call of \<^verbatim>\<open>create_mesh\<close> establishes\<close>

lemma create_mesh_Inr:
  assumes ok: "fst (create_mesh rt md name devices dt) = Inr m"
  defines "dims \<equiv> (case snd (create_mesh rt md name devices dt) of
                      None \<Rightarrow> [(''x'', int (length (local_devices m)))] | Some d \<Rightarrow> d)"
  shows "resolve_devices rt devices dt = Inr (local_devices m)"
    and "local_devices m \<noteq> []"
    and "reshape (arange (int (length (local_devices m)))) (map snd dims)
           = Inr (global_device_ids m)"
    and "local_device_ids m = ravel (global_device_ids m)"
    and "dim_names m = map fst dims"
    and "mesh_name m = name"
    and "mesh_rejects rt m = None"
  using ok unfolding dims_def
  by (auto simp: create_mesh_def Let_def new_Mesh_def log_print_context_def
      split: if_splits sum.splits option.splits list.splits)

lemma create_mesh_caller:
  "snd (create_mesh rt md name devices dt) =
     (case resolve_devices rt devices dt of
        Inl e \<Rightarrow> md
      | Inr devs \<Rightarrow>
          (case md of
             None \<Rightarrow> None
           | Some d \<Rightarrow>
               if length d = 1 \<and> snd (d ! 0) = - 1
               then Some (d[0 := (fst (d ! 0), int (length devs))]) else Some d))"
  by (simp add: create_mesh_def Let_def split: sum.splits option.splits)

subsection \<open>The functions on the example runtime\<close>

lemmas example_defs = example_runtime_def example_from_string_def str_upper_def upper_def
  char_upper_def resolved_def

lemma example_resolve_gpu:
  "resolve_devices example_runtime (Some [''GPU:0'', ''GPU:1'', ''GPU:2'']) None =
     Inr [\<lparr>spec_string = ''/job:localhost/replica:0/task:0/GPU:0'', device_type = Some ''GPU''\<rparr>,
          \<lparr>spec_string = ''/job:localhost/replica:0/task:0/GPU:1'', device_type = Some ''GPU''\<rparr>,
          \<lparr>spec_string = ''/job:localhost/replica:0/task:0/GPU:2'', device_type = Some ''GPU''\<rparr>]"
  by (simp add: resolve_devices_def example_defs)

lemma example_create_mesh_gpu:
  "create_mesh example_runtime (Some [(''b'', - 1)]) ''m'' (Some [''GPU:0'', ''GPU:1'', ''GPU:2'']) None =
     (Inr \<lparr>dim_names = [''b''],
           global_device_ids = \<lparr>shape = [3], data = [0, 1, 2]\<rparr>,
           local_device_ids = [0, 1, 2],
           local_devices =
             [\<lparr>spec_string = ''/job:localhost/replica:0/task:0/GPU:0'', device_type = Some ''GPU''\<rparr>,
              \<lparr>spec_string = ''/job:localhost/replica:0/task:0/GPU:1'', device_type = Some ''GPU''\<rparr>,
              \<lparr>spec_string = ''/job:localhost/replica:0/task:0/GPU:2'', device_type = Some ''GPU''\<rparr>],
           mesh_name = ''m''\<rparr>,
      Some [(''b'', 3)])"
  by (simp add: create_mesh_def resolve_devices_def example_defs reshape_def arange_def
      new_Mesh_def ravel_def log_print_context_def Let_def upt_rec)

lemma example_cdm_client1:
  "create_distributed_mesh example_runtime [(''x'', 2), (''y'', - 1)] ''m'' None None None ''cpu'' =
     Inr \<lparr>dim_names = [''x'', ''y''],
          global_device_ids = \<lparr>shape = [2, 2], data = [0, 1, 2, 3]\<rparr>,
          local_device_ids = [2, 3],
          local_devices =
            [\<lparr>spec_string = ''/job:localhost/replica:0/task:0/device:CPU:0'',
               device_type = Some ''CPU''\<rparr>,
             \<lparr>spec_string = ''/job:localhost/replica:0/task:0/device:CPU:1'',
               device_type = Some ''CPU''\<rparr>],
          mesh_name = ''m''\<rparr>"
  by (simp add: create_distributed_mesh_def example_defs reshape_def arange_def new_Mesh_def
      ravel_def py_slice_def clip_index_def log_print_context_def Let_def upt_rec)

lemma example_cdm_client0:
  "create_distributed_mesh example_runtime [(''x'', 2), (''y'', - 1)] ''m'' None None (Some 0) ''cpu'' =
     Inr \<lparr>dim_names = [''x'', ''y''],
          global_device_ids = \<lparr>shape = [2, 2], data = [0, 1, 2, 3]\<rparr>,
          local_device_ids = [0, 1],
          local_devices =
            [\<lparr>spec_string = ''/job:localhost/replica:0/task:0/device:CPU:0'',
               device_type = Some ''CPU''\<rparr>,
             \<lparr>spec_string = ''/job:localhost/replica:0/task:0/device:CPU:1'',
               device_type = Some ''CPU''\<rparr>],
          mesh_name = ''m''\<rparr>"
  by (simp add: create_distributed_mesh_def example_defs reshape_def arange_def new_Mesh_def
      ravel_def py_slice_def clip_index_def log_print_context_def Let_def upt_rec)

subsection \<open>Claims about \<^verbatim>\<open>create_distributed_mesh\<close>\<close>

text \<open>
  C1. Consider CPU or GPU calls made by the clients of one cluster, where the call of
  client \<open>j\<close> returns a mesh and resolves the global device count \<open>n\<close>, the client count \<open>c\<close>
  and the client id \<open>j\<close>. Then \<open>j\<close> is a valid client id, and the local device ids of
  client \<open>j\<close> are the slice of the flattened global id grid (the range \<open>0, ..., n - 1\<close>)
  that starts at offset \<open>(n div c) * j\<close> and has length \<open>n div c\<close>. The slices of client \<open>j\<close>
  and client \<open>j + 1\<close> are adjacent and share no id, and the slices of all \<open>c\<close> clients, in
  order, make up the whole range \<open>0, ..., n - 1\<close>.
\<close>

theorem create_distributed_mesh_client_slices:
  fixes rts :: "nat \<Rightarrow> runtime" and ngds ncs cids :: "nat \<Rightarrow> int option" and ms :: "nat \<Rightarrow> Mesh"
    and dims :: "(string \<times> int) list" and name :: string and n c :: int
  assumes dt: "upper dt \<in> set [''CPU'', ''GPU'']"
  defines "returns j \<equiv>
        create_distributed_mesh (rts j) dims name (ngds j) (ncs j) (cids j) dt = Inr (ms j)
        \<and> resolved (ngds j) (dtensor_num_global_devices (rts j) dt) = n
        \<and> resolved (ncs j) (dtensor_num_clients (rts j)) = c
        \<and> resolved (cids j) (dtensor_client_id (rts j)) = int j"
  shows "(\<forall>j. returns j \<longrightarrow>
            j < nat c
            \<and> ravel (global_device_ids (ms j)) = map int [0..<nat n]
            \<and> local_device_ids (ms j)
                = py_slice (ravel (global_device_ids (ms j)))
                    (n div c * int j) (n div c * int j + n div c)
            \<and> local_device_ids (ms j)
                = map int [nat (n div c) * j..<nat (n div c) * j + nat (n div c)])
         \<and> (\<forall>j. returns j \<and> returns (Suc j) \<longrightarrow>
               local_device_ids (ms j) @ local_device_ids (ms (Suc j))
                 = map int [nat (n div c) * j..<nat (n div c) * j + 2 * nat (n div c)]
               \<and> set (local_device_ids (ms j)) \<inter> set (local_device_ids (ms (Suc j))) = {})
         \<and> (0 < c \<and> (\<forall>j<nat c. returns j) \<longrightarrow>
               concat (map (\<lambda>j. local_device_ids (ms j)) [0..<nat c]) = map int [0..<nat n])"
proof -
  let ?L = "nat (n div c)"
  have each: "j < nat c \<and> ravel (global_device_ids (ms j)) = map int [0..<nat n]
      \<and> local_device_ids (ms j)
          = py_slice (ravel (global_device_ids (ms j))) (n div c * int j) (n div c * int j + n div c)
      \<and> local_device_ids (ms j) = map int [?L * j..<?L * j + ?L]" if j: "returns j" for j
  proof -
    from j
    have call: "create_distributed_mesh (rts j) dims name (ngds j) (ncs j) (cids j) dt = Inr (ms j)"
      and r: "resolved (ngds j) (dtensor_num_global_devices (rts j) dt) = n"
        "resolved (ncs j) (dtensor_num_clients (rts j)) = c"
        "resolved (cids j) (dtensor_client_id (rts j)) = int j"
      unfolding returns_def by blast+
    from cdm_cpu_gpu_Inr(4) [OF dt call] have "j < nat c" unfolding r by simp
    with cdm_local_ids(1-3) [OF dt call] show ?thesis
      unfolding r by simp
  qed
  have ids: "local_device_ids (ms j) = map int [?L * j..<?L * j + ?L]" if "returns j" for j
    using each [OF that] by blast
  have pair: "local_device_ids (ms j) @ local_device_ids (ms (Suc j))
                 = map int [?L * j..<?L * j + 2 * ?L]
               \<and> set (local_device_ids (ms j)) \<inter> set (local_device_ids (ms (Suc j))) = {}"
    if j0: "returns j" and j: "returns (Suc j)" for j
  proof -
    have e: "?L * Suc j = ?L * j + ?L" "?L * j + 2 * ?L = ?L * j + ?L + ?L" by simp_all
    have "[?L * j..<?L * j + ?L + ?L] = [?L * j..<?L * j + ?L] @ [?L * j + ?L..<?L * j + ?L + ?L]"
      by (rule upt_add_eq_append) simp
    then have "[?L * j..<?L * j + ?L] @ [?L * Suc j..<?L * Suc j + ?L] = [?L * j..<?L * j + 2 * ?L]"
      unfolding e by (rule sym)
    then have "map int [?L * j..<?L * j + ?L] @ map int [?L * Suc j..<?L * Suc j + ?L]
          = map int [?L * j..<?L * j + 2 * ?L]"
      by (metis map_append)
    moreover have "set (map int [?L * j..<?L * j + ?L]) \<inter> set (map int [?L * Suc j..<?L * Suc j + ?L]) = {}"
      by auto
    ultimately show ?thesis unfolding ids [OF j0] ids [OF j] by blast
  qed
  have whole: "concat (map (\<lambda>j. local_device_ids (ms j)) [0..<nat c]) = map int [0..<nat n]"
    if c: "0 < c" and calls: "\<forall>j<nat c. returns j"
  proof -
    from c have "0 < nat c" by simp
    with calls have "returns 0" by blast
    then
    have call: "create_distributed_mesh (rts 0) dims name (ngds 0) (ncs 0) (cids 0) dt = Inr (ms 0)"
      and r: "resolved (ngds 0) (dtensor_num_global_devices (rts 0) dt) = n"
        "resolved (ncs 0) (dtensor_num_clients (rts 0)) = c"
      unfolding returns_def by blast+
    note inv = cdm_cpu_gpu_Inr(1-5) [OF dt call, unfolded r]
    note b = slice_bounds [OF inv]
    from b(4) b(5) c have n: "?L * nat c = nat n"
      by (metis nat_mult_distrib less_imp_le)
    have "map (\<lambda>j. local_device_ids (ms j)) [0..<nat c]
          = map (\<lambda>j. map int [?L * j..<?L * j + ?L]) [0..<nat c]"
      by (rule map_cong) (simp_all add: ids calls)
    then have "concat (map (\<lambda>j. local_device_ids (ms j)) [0..<nat c])
          = concat (map (\<lambda>j. map int [?L * j..<?L * j + ?L]) [0..<nat c])"
      by (rule arg_cong)
    also have "\<dots> = map int (concat (map (\<lambda>j. [?L * j..<?L * j + ?L]) [0..<nat c]))"
      by (simp add: map_concat comp_def)
    also have "\<dots> = map int [0..<nat n]"
      by (simp only: concat_blocks n)
    finally show ?thesis .
  qed
  from each pair whole show ?thesis by blast
qed

theorem create_distributed_mesh_client_slices_witness:
  "\<exists>m0 m1.
     create_distributed_mesh example_runtime [(''x'', 2), (''y'', - 1)] ''m'' None None (Some 0) ''cpu''
       = Inr m0
     \<and> create_distributed_mesh example_runtime [(''x'', 2), (''y'', - 1)] ''m'' None None None ''cpu''
       = Inr m1
     \<and> local_device_ids m0 = [0, 1] \<and> local_device_ids m1 = [2, 3]
     \<and> local_device_ids m0 = py_slice (ravel (global_device_ids m0)) (4 div 2 * 0) (4 div 2 * 0 + 4 div 2)
     \<and> local_device_ids m1 = py_slice (ravel (global_device_ids m1)) (4 div 2 * 1) (4 div 2 * 1 + 4 div 2)
     \<and> set (local_device_ids m0) \<inter> set (local_device_ids m1) = {}
     \<and> concat (map (\<lambda>j. local_device_ids (if j = 0 then m0 else m1)) [0..<nat 2])
         = map int [0..<nat 4]"
proof -
  have dt: "upper ''cpu'' \<in> set [''CPU'', ''GPU'']"
    by (simp add: upper_def char_upper_def)
  obtain m0 where m0: "create_distributed_mesh example_runtime [(''x'', 2), (''y'', - 1)] ''m''
                  None None (Some 0) ''cpu'' = Inr m0" and l0: "local_device_ids m0 = [0, 1]"
    by (simp add: example_cdm_client0)
  obtain m1 where m1: "create_distributed_mesh example_runtime [(''x'', 2), (''y'', - 1)] ''m''
                  None None None ''cpu'' = Inr m1" and l1: "local_device_ids m1 = [2, 3]"
    by (simp add: example_cdm_client1)
  have r: "resolved None (dtensor_num_global_devices example_runtime ''cpu'') = 4"
    "resolved None (dtensor_num_clients example_runtime) = 2"
    "resolved (Some 0) (dtensor_client_id example_runtime) = 0"
    "resolved None (dtensor_client_id example_runtime) = 1"
    by (simp_all add: resolved_def example_runtime_def)
  have calls: "\<forall>j<nat 2.
        create_distributed_mesh example_runtime [(''x'', 2), (''y'', - 1)] ''m'' None None
            (if j = 0 then Some 0 else None) ''cpu'' = Inr (if j = 0 then m0 else m1)
        \<and> resolved None (dtensor_num_global_devices example_runtime ''cpu'') = 4
        \<and> resolved None (dtensor_num_clients example_runtime) = 2
        \<and> resolved (if j = 0 then Some 0 else None) (dtensor_client_id example_runtime) = int j"
    using m0 m1 r by (auto simp: less_Suc_eq numeral_2_eq_2)
  note t = create_distributed_mesh_client_slices [where dt = "''cpu''"
      and rts = "\<lambda>j. example_runtime" and dims = "[(''x'', 2), (''y'', - 1)]" and name = "''m''"
      and ngds = "\<lambda>j. None" and ncs = "\<lambda>j. None"
      and cids = "\<lambda>j. if j = 0 then Some 0 else None"
      and ms = "\<lambda>j. if j = 0 then m0 else m1" and n = 4 and c = 2, OF dt]
  note each0 = t [THEN conjunct1, rule_format, of 0]
  note each1 = t [THEN conjunct1, rule_format, of "Suc 0"]
  note pair = t [THEN conjunct2, THEN conjunct1, rule_format, of 0]
  note whole = t [THEN conjunct2, THEN conjunct2, rule_format]
  from whole calls have "concat (map (\<lambda>j. local_device_ids (if j = 0 then m0 else m1)) [0..<nat 2])
         = map int [0..<nat 4]" by simp
  moreover from pair m0 m1 r have "set (local_device_ids m0) \<inter> set (local_device_ids m1) = {}"
    by simp
  moreover from each0 m0 r
  have "local_device_ids m0 = py_slice (ravel (global_device_ids m0)) (4 div 2 * 0) (4 div 2 * 0 + 4 div 2)"
    by simp
  moreover from each1 m1 r
  have "local_device_ids m1 = py_slice (ravel (global_device_ids m1)) (4 div 2 * 1) (4 div 2 * 1 + 4 div 2)"
    by simp
  ultimately show ?thesis using m0 m1 l0 l1 by blast
qed

text \<open>
  C2. A CPU or GPU call that returns a mesh returns one whose number of local device ids is
  the resolved global device count divided by the resolved client count, and the division
  is exact: client count times that number is the global count.
\<close>

theorem create_distributed_mesh_local_count:
  assumes "upper dt \<in> set [''CPU'', ''GPU'']"
    and "create_distributed_mesh rt dims name ngd nc cid dt = Inr m"
  shows "int (length (local_device_ids m)) =
           resolved ngd (dtensor_num_global_devices rt dt) div resolved nc (dtensor_num_clients rt)
         \<and> resolved nc (dtensor_num_clients rt) * int (length (local_device_ids m)) =
           resolved ngd (dtensor_num_global_devices rt dt)"
proof -
  let ?n = "resolved ngd (dtensor_num_global_devices rt dt)"
  let ?c = "resolved nc (dtensor_num_clients rt)"
  note inv = cdm_cpu_gpu_Inr [OF assms]
  note b = slice_bounds [OF inv(1-5)]
  from cdm_local_ids(3) [OF assms] have "length (local_device_ids m) = nat (?n div ?c)"
    by simp
  with b(4) have "int (length (local_device_ids m)) = ?n div ?c" by simp
  with b(5) show ?thesis by (simp add: mult.commute)
qed

theorem create_distributed_mesh_local_count_witness:
  "upper ''cpu'' \<in> set [''CPU'', ''GPU''] \<and>
   (\<exists>m. create_distributed_mesh example_runtime [(''x'', 2), (''y'', - 1)] ''m'' None None None ''cpu''
          = Inr m \<and> int (length (local_device_ids m)) = 4 div 2 \<and> 2 * int (length (local_device_ids m)) = 4)"
proof -
  have dt: "upper ''cpu'' \<in> set [''CPU'', ''GPU'']"
    by (simp add: upper_def char_upper_def)
  obtain m where m: "create_distributed_mesh example_runtime [(''x'', 2), (''y'', - 1)] ''m'' None None None ''cpu'' = Inr m"
    by (simp add: create_distributed_mesh_def example_runtime_def resolved_def upper_def char_upper_def
        reshape_def arange_def new_Mesh_def log_print_context_def Let_def)
  from create_distributed_mesh_local_count [OF dt m] dt m show ?thesis
    by (simp add: example_runtime_def resolved_def)
qed

text \<open>
  C4. In a CPU or GPU call, whenever the resolved global device count is not positive, the
  resolved client count is not positive, the resolved client id is outside
  \<open>[0, client count)\<close>, or the global count is not divisible by the client count, the call
  raises a \<^verbatim>\<open>ValueError\<close> (that of the first check that fails, in the order of the source)
  and returns no mesh.
\<close>

theorem create_distributed_mesh_validation:
  assumes dt: "upper dt \<in> set [''CPU'', ''GPU'']"
    and bad: "\<not> (0 < resolved ngd (dtensor_num_global_devices rt dt)
               \<and> 0 < resolved nc (dtensor_num_clients rt)
               \<and> 0 \<le> resolved cid (dtensor_client_id rt)
               \<and> resolved cid (dtensor_client_id rt) < resolved nc (dtensor_num_clients rt)
               \<and> resolved ngd (dtensor_num_global_devices rt dt)
                    mod resolved nc (dtensor_num_clients rt) = 0)"
  shows "create_distributed_mesh rt dims name ngd nc cid dt =
           Inl (ValueError
             (if resolved ngd (dtensor_num_global_devices rt dt) \<le> 0 then NumGlobalDevicesNotPositive
              else if resolved nc (dtensor_num_clients rt) \<le> 0 then NumClientsNotPositive
              else if resolved cid (dtensor_client_id rt) < 0 then ClientIdNegative
              else if resolved nc (dtensor_num_clients rt) \<le> resolved cid (dtensor_client_id rt)
                then ClientIdTooLarge
              else NotDivisible))"
  using dt bad by (auto simp: create_distributed_mesh_def Let_def)

theorem create_distributed_mesh_validation_witness:
  "upper ''gpu'' \<in> set [''CPU'', ''GPU'']
   \<and> \<not> (0 < (4::int) \<and> 0 < (2::int) \<and> 0 \<le> (2::int) \<and> (2::int) < 2 \<and> (4::int) mod 2 = 0)
   \<and> create_distributed_mesh example_runtime [(''x'', 4)] ''m'' None None (Some 2) ''gpu''
       = Inl (ValueError ClientIdTooLarge)"
proof -
  have dt: "upper ''gpu'' \<in> set [''CPU'', ''GPU'']"
    by (simp add: upper_def char_upper_def)
  show ?thesis
    using create_distributed_mesh_validation [of "''gpu''" None example_runtime None "Some 2"
        "[(''x'', 4)]" "''m''"] dt
    by (simp add: example_runtime_def resolved_def)
qed

text \<open>
  C6. For a device type that is \<^verbatim>\<open>TPU\<close> in any letter case, a call that passes any of
  \<^verbatim>\<open>num_global_devices\<close>, \<^verbatim>\<open>num_clients\<close> or \<^verbatim>\<open>client_id\<close> raises a \<^verbatim>\<open>ValueError\<close> (for
  the first of the three that is given) and constructs no TPU mesh.
\<close>

theorem create_distributed_mesh_tpu_arguments:
  assumes dt: "upper dt = ''TPU''"
    and given: "ngd \<noteq> None \<or> nc \<noteq> None \<or> cid \<noteq> None"
  shows "create_distributed_mesh rt dims name ngd nc cid dt =
           Inl (ValueError
             (if ngd \<noteq> None then TpuNumGlobalDevices
              else if nc \<noteq> None then TpuNumClients else TpuClientId))"
  using dt given by (auto simp: create_distributed_mesh_def)

theorem create_distributed_mesh_tpu_arguments_witness:
  "upper ''Tpu'' = ''TPU'' \<and> Some (1::int) \<noteq> None
   \<and> create_distributed_mesh example_runtime [(''x'', 4)] ''m'' None (Some 1) (Some 0) ''Tpu''
       = Inl (ValueError TpuNumClients)"
proof -
  have dt: "upper ''Tpu'' = ''TPU''"
    by (simp add: upper_def char_upper_def)
  show ?thesis
    using create_distributed_mesh_tpu_arguments [of "''Tpu''" None "Some 1" "Some 0" example_runtime
        "[(''x'', 4)]" "''m''"] dt
    by simp
qed

text \<open>
  C8. In a CPU or GPU call, when the local device count (global count divided by client
  count) exceeds the number of locally available devices of that type, the call raises a
  \<^verbatim>\<open>ValueError\<close> and returns no mesh; when the earlier checks pass it is the error of
  line 166.
\<close>

theorem create_distributed_mesh_not_enough_devices:
  assumes dt: "upper dt \<in> set [''CPU'', ''GPU'']"
    and more: "dtensor_num_local_devices rt dt
                 < resolved ngd (dtensor_num_global_devices rt dt)
                     div resolved nc (dtensor_num_clients rt)"
  shows "(\<exists>r. create_distributed_mesh rt dims name ngd nc cid dt = Inl (ValueError r))
         \<and> (0 < resolved ngd (dtensor_num_global_devices rt dt)
               \<and> 0 < resolved nc (dtensor_num_clients rt)
               \<and> 0 \<le> resolved cid (dtensor_client_id rt)
               \<and> resolved cid (dtensor_client_id rt) < resolved nc (dtensor_num_clients rt)
               \<and> resolved ngd (dtensor_num_global_devices rt dt)
                    mod resolved nc (dtensor_num_clients rt) = 0
             \<longrightarrow> create_distributed_mesh rt dims name ngd nc cid dt
                   = Inl (ValueError NotEnoughDevices))"
  using dt more by (auto simp: create_distributed_mesh_def Let_def)

theorem create_distributed_mesh_not_enough_devices_witness:
  "upper ''cpu'' \<in> set [''CPU'', ''GPU'']
   \<and> dtensor_num_local_devices example_runtime ''cpu'' < 8 div 2
   \<and> create_distributed_mesh example_runtime [(''x'', 8)] ''m'' (Some 8) None (Some 0) ''cpu''
       = Inl (ValueError NotEnoughDevices)"
proof -
  have dt: "upper ''cpu'' \<in> set [''CPU'', ''GPU'']"
    by (simp add: upper_def char_upper_def)
  show ?thesis
    using create_distributed_mesh_not_enough_devices [of "''cpu''" example_runtime "Some 8" None
        "[(''x'', 8)]" "''m''" "Some 0"] dt
    by (simp add: example_runtime_def resolved_def)
qed

subsection \<open>Claims about \<^verbatim>\<open>create_mesh\<close>\<close>

text \<open>
  C5, as stated, fails: with the explicit device \<^verbatim>\<open>'job:worker'\<close>, in which \<^verbatim>\<open>from_string\<close>
  finds no device type, and the requested type \<^verbatim>\<open>'CPU'\<close>, the device list is explicit and
  not empty and the requested type is not the type of the device, but line 77 fails with
  an \<^verbatim>\<open>AttributeError\<close> on \<^verbatim>\<open>devices[0].device_type.upper()\<close>, and no \<^verbatim>\<open>ValueError\<close> is
  raised.
\<close>

theorem create_mesh_untyped_device_counterexample:
  "parse_all (from_string example_runtime_untyped)
       (map ((@) ''/job:localhost/replica:0/task:0/'') [''job:worker''])
     = Inr [\<lparr>spec_string = ''/job:localhost/replica:0/task:0/job:worker'', device_type = None\<rparr>]
   \<and> create_mesh example_runtime_untyped None ''m'' (Some [''job:worker'']) (Some ''CPU'')
       = (Inl AttributeError, None)"
  by (simp add: create_mesh_def resolve_devices_def example_runtime_untyped_def example_runtime_def)

text \<open>
  C5, amended. A call with an explicit, non-empty device list (whose strings \<^verbatim>\<open>from_string\<close>
  accepts) whose first device has a device type, and with an explicitly requested device
  type, raises the \<^verbatim>\<open>ValueError\<close> of line 78 whenever the requested type and the type of
  the first explicit device, the one the source infers the type from, differ after
  \<^verbatim>\<open>str.upper()\<close> on both. The caller's \<^verbatim>\<open>mesh_dims\<close> is left as it was.
\<close>

theorem create_mesh_conflicting_device_type:
  assumes parsed: "parse_all (from_string rt) (map ((@) ''/job:localhost/replica:0/task:0/'') ds)
             = Inr (d0 # rest)"
    and typed: "device_type d0 = Some t0"
    and mismatch: "str_upper (unicode_upper rt) t \<noteq> str_upper (unicode_upper rt) t0"
  shows "create_mesh rt md name (Some ds) (Some t) = (Inl (ValueError ConflictingDevices), md)"
  using assms by (simp add: create_mesh_def resolve_devices_def)

theorem create_mesh_conflicting_device_type_witness:
  "str_upper (unicode_upper example_runtime) ''cpu'' = ''CPU''
   \<and> str_upper (unicode_upper example_runtime) ''GPU'' = ''GPU''
   \<and> create_mesh example_runtime (Some [(''b'', - 1)]) ''m'' (Some [''GPU:0'']) (Some ''cpu'')
       = (Inl (ValueError ConflictingDevices), Some [(''b'', - 1)])"
proof -
  have p: "parse_all (from_string example_runtime)
             (map ((@) ''/job:localhost/replica:0/task:0/'') [''GPU:0''])
           = Inr (\<lparr>spec_string = ''/job:localhost/replica:0/task:0/GPU:0'',
                    device_type = Some ''GPU''\<rparr> # [])"
    by (simp add: example_runtime_def example_from_string_def)
  have u: "str_upper (unicode_upper example_runtime) ''cpu'' = ''CPU''"
    "str_upper (unicode_upper example_runtime) ''GPU'' = ''GPU''"
    by (simp_all add: str_upper_def upper_def char_upper_def)
  then have n: "str_upper (unicode_upper example_runtime) ''cpu''
                  \<noteq> str_upper (unicode_upper example_runtime) ''GPU''" by simp
  from create_mesh_conflicting_device_type [OF p _ n, of "Some [(''b'', - 1)]" "''m''"] u
  show ?thesis by simp
qed

text \<open>
  C7. A call that returns a mesh returns one whose local device ids are the flattened
  global device ids, which is the list \<open>0, 1, ..., n - 1\<close> for the \<open>n\<close> resolved devices (the
  local devices of the mesh).
\<close>

theorem create_mesh_local_ids:
  assumes "fst (create_mesh rt md name devices dt) = Inr m"
  shows "resolve_devices rt devices dt = Inr (local_devices m)
         \<and> local_device_ids m = ravel (global_device_ids m)
         \<and> local_device_ids m = map int [0..<length (local_devices m)]"
proof -
  note inv = create_mesh_Inr [OF assms]
  from reshape_Inr(2) [OF inv(3)] inv(4)
  have "local_device_ids m = map int [0..<length (local_devices m)]"
    by (simp add: ravel_def arange_def)
  with inv(1) inv(4) show ?thesis by simp
qed

theorem create_mesh_local_ids_witness:
  "\<exists>m. fst (create_mesh example_runtime (Some [(''b'', - 1)]) ''m''
              (Some [''GPU:0'', ''GPU:1'', ''GPU:2'']) None) = Inr m
       \<and> length (local_devices m) = 3
       \<and> local_device_ids m = [0, 1, 2]"
proof -
  obtain m where m: "fst (create_mesh example_runtime (Some [(''b'', - 1)]) ''m''
              (Some [''GPU:0'', ''GPU:1'', ''GPU:2'']) None) = Inr m"
    by (simp add: create_mesh_def resolve_devices_def example_runtime_def example_from_string_def
        upper_def char_upper_def reshape_def arange_def new_Mesh_def ravel_def
        log_print_context_def Let_def)
  note w = create_mesh_local_ids [OF m]
  from w have r: "resolve_devices example_runtime (Some [''GPU:0'', ''GPU:1'', ''GPU:2'']) None
             = Inr (local_devices m)" by (rule conjunct1)
  from w have l: "local_device_ids m = map int [0..<length (local_devices m)]" by blast
  have "\<exists>a b c. resolve_devices example_runtime (Some [''GPU:0'', ''GPU:1'', ''GPU:2'']) None
          = Inr [a, b, c]"
    by (simp add: resolve_devices_def example_runtime_def example_from_string_def
        upper_def char_upper_def)
  with r have "length (local_devices m) = 3" by auto
  with l m show ?thesis by (auto simp: upt_rec numeral_3_eq_3)
qed

text \<open>
  C9, as stated, fails: with \<^verbatim>\<open>mesh_dims = [('b', -1)]\<close>, one explicit device \<^verbatim>\<open>'GPU:0'\<close>
  and the requested type \<^verbatim>\<open>'CPU'\<close>, one device is resolved, the call raises at line 78, and
  the caller's list still holds \<^verbatim>\<open>('b', -1)\<close>.
\<close>

theorem create_mesh_unchanged_counterexample:
  "create_mesh example_runtime (Some [(''b'', - 1)]) ''m'' (Some [''GPU:0'']) (Some ''CPU'')
     = (Inl (ValueError ConflictingDevices), Some [(''b'', - 1)])
   \<and> parse_all (from_string example_runtime)
         (map ((@) ''/job:localhost/replica:0/task:0/'') [''GPU:0''])
       = Inr [\<lparr>spec_string = ''/job:localhost/replica:0/task:0/GPU:0'', device_type = Some ''GPU''\<rparr>]"
  by (simp add: create_mesh_def resolve_devices_def example_defs)

text \<open>
  C9, amended. When the device resolution of lines 63 to 79 does not raise and
  \<^verbatim>\<open>mesh_dims\<close> is a single-element list whose dimension size is \<open>-1\<close>, the caller's list
  element is overwritten with (same name, number of resolved devices), whether or not the
  rest of the call succeeds. For every other \<^verbatim>\<open>mesh_dims\<close>, and whenever the device
  resolution raises, the argument is left unchanged.
\<close>

theorem create_mesh_mesh_dims_effect:
  "(resolve_devices rt devices dt = Inr devs \<longrightarrow>
      snd (create_mesh rt (Some [(dim_name, - 1)]) name devices dt)
        = Some [(dim_name, int (length devs))])
   \<and> ((\<forall>dim_name. md \<noteq> Some [(dim_name, - 1)]) \<longrightarrow>
        snd (create_mesh rt md name devices dt) = md)
   \<and> (resolve_devices rt devices dt = Inl e \<longrightarrow>
        snd (create_mesh rt md name devices dt) = md)"
proof (intro conjI impI)
  assume "resolve_devices rt devices dt = Inr devs"
  then show "snd (create_mesh rt (Some [(dim_name, - 1)]) name devices dt)
        = Some [(dim_name, int (length devs))]"
    by (simp add: create_mesh_caller)
next
  assume n: "\<forall>dim_name. md \<noteq> Some [(dim_name, - 1)]"
  show "snd (create_mesh rt md name devices dt) = md"
  proof (cases md)
    case None
    then show ?thesis by (simp add: create_mesh_caller split: sum.splits)
  next
    case (Some d)
    have "\<not> (length d = 1 \<and> snd (d ! 0) = - 1)"
    proof
      assume a: "length d = 1 \<and> snd (d ! 0) = - 1"
      then obtain x where "d = [x]" by (cases d) auto
      with a have "d = [(fst x, - 1)]" by (cases x) simp
      with n Some show False by blast
    qed
    with Some show ?thesis by (auto simp: create_mesh_caller split: sum.splits)
  qed
next
  assume "resolve_devices rt devices dt = Inl e"
  then show "snd (create_mesh rt md name devices dt) = md"
    by (simp add: create_mesh_caller)
qed

theorem create_mesh_mesh_dims_effect_witness:
  "snd (create_mesh example_runtime (Some [(''b'', - 1)]) ''m''
          (Some [''GPU:0'', ''GPU:1'', ''GPU:2'']) None) = Some [(''b'', 3)]
   \<and> snd (create_mesh example_runtime (Some [(''b'', 3)]) ''m''
          (Some [''GPU:0'', ''GPU:1'', ''GPU:2'']) None) = Some [(''b'', 3)]
   \<and> resolve_devices example_runtime (Some [''GPU:0'']) (Some ''CPU'')
        = Inl (ValueError ConflictingDevices)
   \<and> snd (create_mesh example_runtime (Some [(''b'', - 1)]) ''m'' (Some [''GPU:0'']) (Some ''CPU''))
        = Some [(''b'', - 1)]"
proof -
  have r: "resolve_devices example_runtime (Some [''GPU:0'']) (Some ''CPU'')
        = Inl (ValueError ConflictingDevices)"
    by (simp add: resolve_devices_def example_defs)
  from create_mesh_mesh_dims_effect [of example_runtime "Some [''GPU:0'', ''GPU:1'', ''GPU:2'']"
      None _ "''b''" "''m''" "Some [(''b'', 3)]" "ValueError RuntimeRejected"]
    example_resolve_gpu
  have a: "snd (create_mesh example_runtime (Some [(''b'', - 1)]) ''m''
          (Some [''GPU:0'', ''GPU:1'', ''GPU:2'']) None) = Some [(''b'', 3)]"
    and b: "snd (create_mesh example_runtime (Some [(''b'', 3)]) ''m''
          (Some [''GPU:0'', ''GPU:1'', ''GPU:2'']) None) = Some [(''b'', 3)]"
    by simp_all
  from create_mesh_mesh_dims_effect [of example_runtime "Some [''GPU:0'']" "Some ''CPU''" "[]"
      "''b''" "''m''" "Some [(''b'', - 1)]" "ValueError ConflictingDevices"] r
  have c: "snd (create_mesh example_runtime (Some [(''b'', - 1)]) ''m'' (Some [''GPU:0'']) (Some ''CPU''))
        = Some [(''b'', - 1)]" by simp
  from a b c r show ?thesis by simp
qed




subsection \<open>The invariant of the returned mesh\<close>

text \<open>
  C3. In every mesh returned by \<^verbatim>\<open>create_mesh\<close> or by the CPU/GPU branch of
  \<^verbatim>\<open>create_distributed_mesh\<close>, the product of the dimension sizes of the global device-id
  grid is the global device count (the number of resolved devices, or the resolved
  \<^verbatim>\<open>num_global_devices\<close>), the grid holds the range \<open>0, ..., count - 1\<close> in row-major order,
  and it has one dimension per dimension name. The dimension sizes are the requested ones
  whenever none of them is negative (a negative size is inferred by \<^verbatim>\<open>reshape\<close>).
\<close>

theorem mesh_shape_product:
  "(fst (create_mesh rt md name devices dt) = Inr m \<longrightarrow>
      prod_list (shape (global_device_ids m)) = int (length (local_devices m))
      \<and> ravel (global_device_ids m) = map int [0..<length (local_devices m)]
      \<and> length (shape (global_device_ids m)) = length (dim_names m)
      \<and> ((\<forall>d \<in> set (case snd (create_mesh rt md name devices dt) of
                         None \<Rightarrow> [(''x'', int (length (local_devices m)))] | Some ds \<Rightarrow> ds).
              0 \<le> snd d) \<longrightarrow>
           shape (global_device_ids m)
             = map snd (case snd (create_mesh rt md name devices dt) of
                          None \<Rightarrow> [(''x'', int (length (local_devices m)))] | Some ds \<Rightarrow> ds)))
   \<and> (upper dtype \<in> set [''CPU'', ''GPU'']
        \<and> create_distributed_mesh rt' dims name' ngd nc cid dtype = Inr m' \<longrightarrow>
      prod_list (shape (global_device_ids m')) = resolved ngd (dtensor_num_global_devices rt' dtype)
      \<and> ravel (global_device_ids m')
          = map int [0..<nat (resolved ngd (dtensor_num_global_devices rt' dtype))]
      \<and> length (shape (global_device_ids m')) = length (dim_names m')
      \<and> ((\<forall>d \<in> set dims. 0 \<le> snd d) \<longrightarrow> shape (global_device_ids m') = map snd dims))"
proof (intro conjI impI)
  assume ok: "fst (create_mesh rt md name devices dt) = Inr m"
  note inv = create_mesh_Inr [OF ok]
  from reshape_Inr(1) [OF inv(3)]
  show "prod_list (shape (global_device_ids m)) = int (length (local_devices m))"
    by (simp add: arange_def)
  from reshape_Inr(2) [OF inv(3)]
  show "ravel (global_device_ids m) = map int [0..<length (local_devices m)]"
    by (simp add: ravel_def arange_def)
  from reshape_Inr(3) [OF inv(3)] inv(5)
  show "length (shape (global_device_ids m)) = length (dim_names m)" by simp
  show "shape (global_device_ids m)
          = map snd (case snd (create_mesh rt md name devices dt) of
                       None \<Rightarrow> [(''x'', int (length (local_devices m)))] | Some ds \<Rightarrow> ds)"
    if "\<forall>d \<in> set (case snd (create_mesh rt md name devices dt) of
                      None \<Rightarrow> [(''x'', int (length (local_devices m)))] | Some ds \<Rightarrow> ds).
          0 \<le> snd d"
    using reshape_Inr(4) [OF inv(3)] that by simp
next
  assume "upper dtype \<in> set [''CPU'', ''GPU'']
        \<and> create_distributed_mesh rt' dims name' ngd nc cid dtype = Inr m'"
  then have a: "upper dtype \<in> set [''CPU'', ''GPU'']"
    and b: "create_distributed_mesh rt' dims name' ngd nc cid dtype = Inr m'" by simp_all
  note l = cdm_local_ids [OF a b]
  from l(4)
  show "prod_list (shape (global_device_ids m')) = resolved ngd (dtensor_num_global_devices rt' dtype)" .
  from l(1)
  show "ravel (global_device_ids m')
          = map int [0..<nat (resolved ngd (dtensor_num_global_devices rt' dtype))]" .
  from l(5) show "length (shape (global_device_ids m')) = length (dim_names m')" .
  show "shape (global_device_ids m') = map snd dims" if "\<forall>d \<in> set dims. 0 \<le> snd d"
    using l(6) that by blast
qed

theorem mesh_shape_product_witness:
  "\<exists>m m'. fst (create_mesh example_runtime (Some [(''b'', - 1)]) ''m''
                  (Some [''GPU:0'', ''GPU:1'', ''GPU:2'']) None) = Inr m
     \<and> upper ''cpu'' \<in> set [''CPU'', ''GPU'']
     \<and> create_distributed_mesh example_runtime [(''x'', 2), (''y'', - 1)] ''m'' None None None ''cpu''
         = Inr m'
     \<and> shape (global_device_ids m) = [3] \<and> prod_list (shape (global_device_ids m)) = 3
     \<and> shape (global_device_ids m') = [2, 2] \<and> prod_list (shape (global_device_ids m')) = 4"
proof -
  have dt: "upper ''cpu'' \<in> set [''CPU'', ''GPU'']"
    by (simp add: upper_def char_upper_def)
  obtain m where m: "fst (create_mesh example_runtime (Some [(''b'', - 1)]) ''m''
                  (Some [''GPU:0'', ''GPU:1'', ''GPU:2'']) None) = Inr m"
    and sm: "shape (global_device_ids m) = [3]" and lm: "length (local_devices m) = 3"
    by (simp add: example_create_mesh_gpu)
  obtain m' where m': "create_distributed_mesh example_runtime [(''x'', 2), (''y'', - 1)] ''m''
                  None None None ''cpu'' = Inr m'"
    and sm': "shape (global_device_ids m') = [2, 2]"
    by (simp add: example_cdm_client1)
  have n: "resolved None (dtensor_num_global_devices example_runtime ''cpu'') = 4"
    by (simp add: resolved_def example_runtime_def)
  note t = mesh_shape_product [of example_runtime "Some [(''b'', - 1)]" "''m''"
      "Some [''GPU:0'', ''GPU:1'', ''GPU:2'']" None m "''cpu''" example_runtime
      "[(''x'', 2), (''y'', - 1)]" "''m''" None None None m']
  from t m lm have "prod_list (shape (global_device_ids m)) = 3" by simp
  moreover from t dt m' n have "prod_list (shape (global_device_ids m')) = 4" by auto
  ultimately show ?thesis using dt m m' sm sm' by blast
qed

end
